theory Spec2Isabelle
  imports Main
begin

section \<open>Frame-conversion helpers of the coordinates design notebook\<close>

text \<open>
  The functions of \<^verbatim>\<open>docs/design/coordinates_design.ipynb\<close>
  (\<^verbatim>\<open>_reference_time\<close>, \<^verbatim>\<open>_reference_location\<close>, \<^verbatim>\<open>_target_location\<close>,
  \<^verbatim>\<open>_change_frame\<close>, \<^verbatim>\<open>topo_to_lsrk\<close>) are embedded statement by statement.
  An Isabelle name cannot start with an underscore, so the source's \<^verbatim>\<open>_f\<close> is
  written \<open>helper_f\<close> (the notebook calls them helper functions).

  What the claims are about is Python's control flow: which exception is raised where,
  which \<^verbatim>\<open>try\<close> catches it, and which names are bound when a statement runs.
  So exceptions are values, local variables are an explicit frame, names that the
  function body never assigns are read from the module globals, and every call into
  astropy, xarray or cngi is a fallible operation supplied from outside.
\<close>

subsection \<open>Values and exceptions\<close>

datatype pyerr =
    KeyError
  | AttributeError
  | IndexError
  | TypeError
  | ValueError
  | NameError
  | UnboundLocalError
  | ImportError
  | LibraryError string

text \<open>
  \<open>PSeq\<close> is a list, and also the contents of an array with at least one axis;
  \<open>PArray\<close> is a numpy array over its contents, and \<open>PDataArray\<close> a data array over
  its contents: contents that are no \<open>PSeq\<close> make an array without axes;
  \<open>PDataset\<close> holds the data variables (with the coordinates) and the attributes;
  \<open>PQuantity\<close> is a number with a unit, written as in the source;
  \<open>PObj\<close> is any object built by a library, opaque to this code.
\<close>

datatype pyval =
    PNone
  | PStr string
  | PNum int
  | PSeq "pyval list"
  | PArray pyval
  | PDataArray pyval
  | PDict "(string \<times> pyval) list"
  | PDataset "(string \<times> pyval) list" "(string \<times> pyval) list"
  | PQuantity string string
  | PObj string "pyval list"

type_synonym 'a res = "pyerr + 'a"

definition then_do :: "'a res \<Rightarrow> ('a \<Rightarrow> 'b res) \<Rightarrow> 'b res" where
  "then_do m f = (case m of Inl e \<Rightarrow> Inl e | Inr v \<Rightarrow> f v)"

text \<open>\<^verbatim>\<open>x[key]\<close> with a string key. A dataset looks the key up among its variables
  and hands back a data array.\<close>

fun getitem :: "pyval \<Rightarrow> string \<Rightarrow> pyval res" where
  "getitem (PDataset vars ats) k =
     (case map_of vars k of None \<Rightarrow> Inl KeyError | Some v \<Rightarrow> Inr (PDataArray v))"
| "getitem (PDict kvs) k =
     (case map_of kvs k of None \<Rightarrow> Inl KeyError | Some v \<Rightarrow> Inr v)"
| "getitem (PDataArray v) k = Inl KeyError"
| "getitem (PArray v) k = Inl IndexError"
| "getitem v k = Inl TypeError"

text \<open>\<^verbatim>\<open>x.name\<close> for a name that is no method or property of the object: a dataset
  tries its variables, then its attributes.\<close>

fun getattr :: "pyval \<Rightarrow> string \<Rightarrow> pyval res" where
  "getattr (PDataset vars ats) k =
     (case map_of vars k of
        Some v \<Rightarrow> Inr (PDataArray v)
      | None \<Rightarrow> (case map_of ats k of None \<Rightarrow> Inl AttributeError | Some a \<Rightarrow> Inr a))"
| "getattr v k = Inl AttributeError"

text \<open>\<^verbatim>\<open>x.values\<close>: the numpy array under a data array; the \<^verbatim>\<open>values\<close> method
  of a mapping; nothing on the other values.\<close>

fun values_attr :: "pyval \<Rightarrow> pyval res" where
  "values_attr (PDataArray v) = Inr (PArray v)"
| "values_attr (PDict kvs) = Inr (PObj ''method'' [])"
| "values_attr (PDataset vars ats) = Inr (PObj ''method'' [])"
| "values_attr v = Inl AttributeError"

text \<open>\<^verbatim>\<open>x.attrs\<close>. A data array of this model carries no attributes of its
  own.\<close>

fun attrs_attr :: "pyval \<Rightarrow> pyval res" where
  "attrs_attr (PDataset vars ats) = Inr (PDict ats)"
| "attrs_attr (PDataArray v) = Inr (PDict [])"
| "attrs_attr v = Inl AttributeError"

text \<open>\<^verbatim>\<open>x[0]\<close>. An array without axes, or with none of its first axis, raises
  \<^verbatim>\<open>IndexError\<close>; the first entry of a numpy array is an array again when it has
  axes left, and the element itself otherwise.\<close>

fun sub_array :: "pyval \<Rightarrow> pyval" where
  "sub_array (PSeq vs) = PArray (PSeq vs)"
| "sub_array v = v"

fun index0 :: "pyval \<Rightarrow> pyval res" where
  "index0 (PSeq []) = Inl IndexError"
| "index0 (PSeq (v # vs)) = Inr v"
| "index0 (PArray (PSeq [])) = Inl IndexError"
| "index0 (PArray (PSeq (v # vs))) = Inr (sub_array v)"
| "index0 (PArray v) = Inl IndexError"
| "index0 (PDataArray (PSeq [])) = Inl IndexError"
| "index0 (PDataArray (PSeq (v # vs))) = Inr (PDataArray v)"
| "index0 (PDataArray v) = Inl IndexError"
| "index0 (PStr []) = Inl IndexError"
| "index0 (PStr (c # cs)) = Inr (PStr [c])"
| "index0 (PDict kvs) = Inl KeyError"
| "index0 (PDataset vars ats) = Inl KeyError"
| "index0 v = Inl TypeError"

text \<open>\<^verbatim>\<open>x.split('')\<close>: a string refuses the empty separator; the other values have no
  such method.\<close>

fun split_empty :: "pyval \<Rightarrow> pyval res" where
  "split_empty (PStr s) = Inl ValueError"
| "split_empty v = Inl AttributeError"

text \<open>\<^verbatim>\<open>x[:-1]\<close>.\<close>

fun slice_drop_last :: "pyval \<Rightarrow> pyval res" where
  "slice_drop_last (PSeq vs) = Inr (PSeq (butlast vs))"
| "slice_drop_last (PStr s) = Inr (PStr (butlast s))"
| "slice_drop_last (PArray (PSeq vs)) = Inr (PArray (PSeq (butlast vs)))"
| "slice_drop_last (PArray v) = Inl IndexError"
| "slice_drop_last (PDataArray (PSeq vs)) = Inr (PDataArray (PSeq (butlast vs)))"
| "slice_drop_last (PDataArray v) = Inl IndexError"
| "slice_drop_last v = Inl TypeError"

text \<open>\<^verbatim>\<open>u(...)\<close> where \<^verbatim>\<open>u\<close> was bound by \<^verbatim>\<open>from astropy import units as u\<close>:
  a module is not callable.\<close>

definition call_module :: "pyval \<Rightarrow> pyval res" where
  "call_module arg = Inl TypeError"

subsection \<open>The surroundings of a call\<close>

text \<open>
  \<open>now\<close> is what \<^verbatim>\<open>datetime.datetime.now()\<close> returns, \<open>globals\<close> the module
  namespace, \<open>importable m n\<close> whether \<^verbatim>\<open>from m import n\<close> succeeds (\<open>n\<close> empty for
  \<^verbatim>\<open>import m\<close>).
\<close>

record env =
  now :: pyval
  globals :: "string \<Rightarrow> pyval option"
  importable :: "string \<Rightarrow> string \<Rightarrow> bool"

text \<open>The external collaborators: astropy, xarray and \<^verbatim>\<open>cngi.dio\<close>. Each may
  raise.\<close>

record lib =
  of_site :: "pyval \<Rightarrow> pyval res"
  EarthLocation :: "pyval \<Rightarrow> pyval res"
  Time :: "pyval \<Rightarrow> pyval res"
  get_itrs :: "pyval \<Rightarrow> pyval \<Rightarrow> pyval res"
  mean :: "pyval \<Rightarrow> pyval res"
  times_unit :: "pyval \<Rightarrow> string \<Rightarrow> pyval res"
  Angle :: "pyval \<Rightarrow> pyval \<Rightarrow> pyval res"
  SkyCoord :: "pyval \<Rightarrow> pyval \<Rightarrow> pyval \<Rightarrow> pyval \<Rightarrow> pyval res"
  SpectralCoord :: "pyval \<Rightarrow> pyval \<Rightarrow> pyval \<Rightarrow> pyval \<Rightarrow> pyval res"
  with_observer_stationary_relative_to :: "pyval \<Rightarrow> string \<Rightarrow> pyval res"
  call_reduce :: "pyval \<Rightarrow> pyval res"
  read_vis :: "pyval \<Rightarrow> pyval \<Rightarrow> pyval \<Rightarrow> pyval res"
  chunk_chan :: "pyval \<Rightarrow> pyval res"
  dtype :: "pyval \<Rightarrow> pyval res"
  apply_ufunc :: "pyval \<Rightarrow> pyval \<Rightarrow> pyval \<Rightarrow> pyval \<Rightarrow> pyval \<Rightarrow> pyval res"

subsection \<open>Statements over a frame of local variables\<close>

type_synonym frame = "string \<Rightarrow> pyval option"

datatype outcome = Normal frame | Raise pyerr frame

type_synonym stmt = "frame \<Rightarrow> outcome"
type_synonym expr = "frame \<Rightarrow> pyval res"

text \<open>Reading a local name that no statement has bound yet.\<close>

definition load :: "string \<Rightarrow> expr" where
  "load x L = (case L x of None \<Rightarrow> Inl UnboundLocalError | Some v \<Rightarrow> Inr v)"

text \<open>Reading a name the function never assigns: it is looked up in the module.\<close>

definition load_global :: "env \<Rightarrow> string \<Rightarrow> pyval res" where
  "load_global E x = (case globals E x of None \<Rightarrow> Inl NameError | Some v \<Rightarrow> Inr v)"

definition assign :: "string \<Rightarrow> expr \<Rightarrow> stmt" where
  "assign x e L = (case e L of Inl err \<Rightarrow> Raise err L | Inr v \<Rightarrow> Normal (L(x \<mapsto> v)))"

definition expr_stmt :: "expr \<Rightarrow> stmt" where
  "expr_stmt e L = (case e L of Inl err \<Rightarrow> Raise err L | Inr v \<Rightarrow> Normal L)"

definition seq :: "stmt \<Rightarrow> stmt \<Rightarrow> stmt" where
  "seq s t L = (case s L of Normal L' \<Rightarrow> t L' | Raise err L' \<Rightarrow> Raise err L')"

text \<open>\<^verbatim>\<open>try: body except: handler\<close>. The bare \<^verbatim>\<open>except\<close> catches every
  exception; the handler runs in the frame the body left behind, and what the handler
  raises is not caught.\<close>

definition try_except :: "stmt \<Rightarrow> stmt \<Rightarrow> stmt" where
  "try_except body handler L =
     (case body L of Normal L' \<Rightarrow> Normal L' | Raise err L' \<Rightarrow> handler L')"

definition import_from :: "env \<Rightarrow> string \<Rightarrow> string list \<Rightarrow> stmt" where
  "import_from E m names L =
     (if list_all (importable E m) names then Normal L else Raise ImportError L)"

definition import_module :: "env \<Rightarrow> string \<Rightarrow> stmt" where
  "import_module E m L = (if importable E m [] then Normal L else Raise ImportError L)"

text \<open>A function body run on its parameters, then its \<^verbatim>\<open>return\<close> expression.\<close>

definition run_def :: "(string \<times> pyval) list \<Rightarrow> stmt \<Rightarrow> expr \<Rightarrow> pyval res" where
  "run_def params body ret =
     (case body (map_of params) of Normal L \<Rightarrow> ret L | Raise err L \<Rightarrow> Inl err)"

text \<open>A call with positional arguments of a function of one, or of two, parameters.\<close>

fun call1 :: "(pyval \<Rightarrow> pyval res) \<Rightarrow> pyval list \<Rightarrow> pyval res" where
  "call1 f [a] = f a"
| "call1 f args = Inl TypeError"

fun call2 :: "(pyval \<Rightarrow> pyval \<Rightarrow> pyval res) \<Rightarrow> pyval list \<Rightarrow> pyval res" where
  "call2 f [a, b] = f a b"
| "call2 f args = Inl TypeError"

subsection \<open>\<^verbatim>\<open>_reference_time\<close>\<close>

text \<open>
  \<^verbatim>\<open>
  def _reference_time(input_xds):
    import datetime
    try:
      reference_time = input_xds['ASDM_startValidTime'][0]
      reference_time = input_xds.OBS_TIME_RANGE.values[0]
    except:
      reference_time = datetime.datetime.now()
    return reference_time
  \<close>
  \<^verbatim>\<open>datetime\<close> is part of the standard library, so its import is not a point of
  failure.
\<close>

definition asdm_start :: expr where
  "asdm_start L =
     then_do (load ''input_xds'' L) (\<lambda>x.
     then_do (getitem x ''ASDM_startValidTime'') index0)"

definition obs_time_range_first :: expr where
  "obs_time_range_first L =
     then_do (load ''input_xds'' L) (\<lambda>x.
     then_do (getattr x ''OBS_TIME_RANGE'') (\<lambda>r.
     then_do (values_attr r) index0))"

definition helper_reference_time :: "env \<Rightarrow> pyval \<Rightarrow> pyval res" where
  "helper_reference_time E input_xds =
     run_def [(''input_xds'', input_xds)]
       (try_except
          (seq (assign ''reference_time'' asdm_start)
               (assign ''reference_time'' obs_time_range_first))
          (assign ''reference_time'' (\<lambda>L. Inr (now E))))
       (load ''reference_time'')"

subsection \<open>\<^verbatim>\<open>_reference_location\<close>\<close>

text \<open>
  \<^verbatim>\<open>
  def _reference_location(input_xds, reference_time):
    from astropy.coordinates import EarthLocation
    from astropy.time import Time
    try:
      observer_location = EarthLocation.of_site(input_xds['OBS_TELESCOPE_NAME']).get_itrs(obstime=Time(reference_time))
    except:
      observer_location = EarthLocation(input_xds['ANT_POSITION'].mean()).get_itrs(obstime=Time(reference_time))
    return observer_location
  \<close>
  In both expressions the receiver of \<^verbatim>\<open>get_itrs\<close> is evaluated before its argument.
\<close>

definition site_location :: "lib \<Rightarrow> expr" where
  "site_location B L =
     then_do (load ''input_xds'' L) (\<lambda>x.
     then_do (getitem x ''OBS_TELESCOPE_NAME'') (\<lambda>name.
     then_do (of_site B name) (\<lambda>loc.
     then_do (load ''reference_time'' L) (\<lambda>t.
     then_do (Time B t) (\<lambda>obstime.
     get_itrs B loc obstime)))))"

definition antenna_location :: "lib \<Rightarrow> expr" where
  "antenna_location B L =
     then_do (load ''input_xds'' L) (\<lambda>x.
     then_do (getitem x ''ANT_POSITION'') (\<lambda>pos.
     then_do (mean B pos) (\<lambda>centre.
     then_do (EarthLocation B centre) (\<lambda>loc.
     then_do (load ''reference_time'' L) (\<lambda>t.
     then_do (Time B t) (\<lambda>obstime.
     get_itrs B loc obstime))))))"

definition helper_reference_location :: "env \<Rightarrow> lib \<Rightarrow> pyval \<Rightarrow> pyval \<Rightarrow> pyval res" where
  "helper_reference_location E B input_xds reference_time =
     run_def [(''input_xds'', input_xds), (''reference_time'', reference_time)]
       (seq (import_from E ''astropy.coordinates'' [''EarthLocation''])
       (seq (import_from E ''astropy.time'' [''Time''])
            (try_except
               (assign ''observer_location'' (site_location B))
               (assign ''observer_location'' (antenna_location B)))))
       (load ''observer_location'')"

subsection \<open>\<^verbatim>\<open>_target_location\<close>\<close>

text \<open>
  \<^verbatim>\<open>
  def _target_location(input_xds):
    from astropy.coordinates import Angle, SkyCoord
    from astropy import units as u
    try:
      radec_string = Angle(input_xds.SRC_DIRECTION * u.rad, input_xds.SRC_DIRECTION * u.rad)
    except:
      radec = '04h21m59.43s +19d32m06.4'
    try:
      target_frame ='icrs'
    except:
      target_frame = 'FK5'
    try:
      recession = global_xds.SRC_PROPER_MOTION * u.Hz
    except:
      recession = 23.9 * u.km / u.s
    try:
      distance = something
    except:
      distance = 144.321 * u.pc
    target_location =  SkyCoord(radec, frame=target_frame, radial_velocity=recession, distance=distance)
    return target_location
  \<close>
  The body assigns neither \<^verbatim>\<open>global_xds\<close> nor \<^verbatim>\<open>something\<close>, so both are
  module names; \<^verbatim>\<open>radec\<close> and \<^verbatim>\<open>radec_string\<close> are two different locals.
\<close>

definition default_radec :: pyval where
  "default_radec = PStr ''04h21m59.43s +19d32m06.4''"

definition default_recession :: pyval where
  "default_recession = PQuantity ''23.9'' ''km / s''"

definition default_distance :: pyval where
  "default_distance = PQuantity ''144.321'' ''pc''"

definition src_direction_rad :: "lib \<Rightarrow> expr" where
  "src_direction_rad B L =
     then_do (load ''input_xds'' L) (\<lambda>x.
     then_do (getattr x ''SRC_DIRECTION'') (\<lambda>d.
     times_unit B d ''rad''))"

definition direction_angle :: "lib \<Rightarrow> expr" where
  "direction_angle B L =
     then_do (src_direction_rad B L) (\<lambda>a.
     then_do (src_direction_rad B L) (\<lambda>b.
     Angle B a b))"

definition proper_motion_hz :: "env \<Rightarrow> lib \<Rightarrow> expr" where
  "proper_motion_hz E B L =
     then_do (load_global E ''global_xds'') (\<lambda>g.
     then_do (getattr g ''SRC_PROPER_MOTION'') (\<lambda>m.
     times_unit B m ''Hz''))"

definition sky_coord :: "lib \<Rightarrow> expr" where
  "sky_coord B L =
     then_do (load ''radec'' L) (\<lambda>radec.
     then_do (load ''target_frame'' L) (\<lambda>target_frame.
     then_do (load ''recession'' L) (\<lambda>recession.
     then_do (load ''distance'' L) (\<lambda>distance.
     SkyCoord B radec target_frame recession distance))))"

definition target_radec :: "lib \<Rightarrow> stmt" where
  "target_radec B =
     try_except (assign ''radec_string'' (direction_angle B))
                (assign ''radec'' (\<lambda>L. Inr default_radec))"

definition target_frame_stmt :: stmt where
  "target_frame_stmt =
     try_except (assign ''target_frame'' (\<lambda>L. Inr (PStr ''icrs'')))
                (assign ''target_frame'' (\<lambda>L. Inr (PStr ''FK5'')))"

definition target_recession :: "env \<Rightarrow> lib \<Rightarrow> stmt" where
  "target_recession E B =
     try_except (assign ''recession'' (proper_motion_hz E B))
                (assign ''recession'' (\<lambda>L. Inr default_recession))"

definition target_distance :: "env \<Rightarrow> stmt" where
  "target_distance E =
     try_except (assign ''distance'' (\<lambda>L. load_global E ''something''))
                (assign ''distance'' (\<lambda>L. Inr default_distance))"

definition helper_target_location :: "env \<Rightarrow> lib \<Rightarrow> pyval \<Rightarrow> pyval res" where
  "helper_target_location E B input_xds =
     run_def [(''input_xds'', input_xds)]
       (seq (import_from E ''astropy.coordinates'' [''Angle'', ''SkyCoord''])
       (seq (import_from E ''astropy'' [''units''])
       (seq (target_radec B)
       (seq target_frame_stmt
       (seq (target_recession E B)
       (seq (target_distance E)
            (assign ''target_location'' (sky_coord B))))))))
       (load ''target_location'')"

subsection \<open>\<^verbatim>\<open>_change_frame\<close>\<close>

text \<open>
  \<^verbatim>\<open>
  def _change_frame(input_array, place, source):
    from astropy import units as u
    from astropy.coordinates import EarthLocation, SkyCoord, SpectralCoord
    from astropy.time import Time
    import xarray
    import numpy as np
    SpectralCoord(input_array,
                  unit=u(img_xds.attrs['rest_frequency'].split('')[:-1]),
                  observer=place,
                  target=source,
                  )
    output_array = input_array.with_observer_stationary_relative_to('lsrk')
    return output_array(axis=-1, keepdims=True)
  \<close>
  \<^verbatim>\<open>img_xds\<close> is a module name. The arguments of \<^verbatim>\<open>SpectralCoord\<close> are evaluated
  from left to right before the call.
\<close>

definition rest_frequency_unit :: "env \<Rightarrow> pyval res" where
  "rest_frequency_unit E =
     then_do (load_global E ''img_xds'') (\<lambda>img.
     then_do (attrs_attr img) (\<lambda>ats.
     then_do (getitem ats ''rest_frequency'') (\<lambda>f.
     then_do (split_empty f) (\<lambda>parts.
     then_do (slice_drop_last parts) call_module))))"

definition spectral_coord :: "env \<Rightarrow> lib \<Rightarrow> expr" where
  "spectral_coord E B L =
     then_do (load ''input_array'' L) (\<lambda>input_array.
     then_do (rest_frequency_unit E) (\<lambda>unit.
     then_do (load ''place'' L) (\<lambda>place.
     then_do (load ''source'' L) (\<lambda>source.
     SpectralCoord B input_array unit place source))))"

definition helper_change_frame :: "env \<Rightarrow> lib \<Rightarrow> pyval \<Rightarrow> pyval \<Rightarrow> pyval \<Rightarrow> pyval res" where
  "helper_change_frame E B input_array place source =
     run_def [(''input_array'', input_array), (''place'', place), (''source'', source)]
       (seq (import_from E ''astropy'' [''units''])
       (seq (import_from E ''astropy.coordinates''
               [''EarthLocation'', ''SkyCoord'', ''SpectralCoord''])
       (seq (import_from E ''astropy.time'' [''Time''])
       (seq (import_module E ''xarray'')
       (seq (import_module E ''numpy'')
       (seq (expr_stmt (spectral_coord E B))
            (assign ''output_array'' (\<lambda>L.
               then_do (load ''input_array'' L) (\<lambda>a.
               with_observer_stationary_relative_to B a ''lsrk'')))))))))
       (\<lambda>L. then_do (load ''output_array'' L) (call_reduce B))"

subsection \<open>\<^verbatim>\<open>topo_to_lsrk\<close>\<close>

text \<open>
  \<^verbatim>\<open>
  def topo_to_lsrk(xds, ddi, reference_time, observer_location, target_location):
    import xarray
    from cngi.dio import read_vis
    vis_xds = cngi.dio.read_vis(xds, ddi=ddi)
    global_xds = cngi.dio.read_vis(xds, ddi='global')
    time = _reference_time(global_xds)
    place = _reference_location(global_xds, reference_time)
    source = _target_location(global_xds, ddi)
    output_xds = xarray.apply_ufunc(change_frame, place, source, vis_xds.DATA.chunk({'chan':-1}), input_core_dims=[['chan']], dask='parallelized', output_dtypes=[vis_xds.DATA.dtype])
    return output_xds
  \<close>
  The import binds only \<^verbatim>\<open>read_vis\<close>, so \<^verbatim>\<open>cngi\<close> is a module name, and so is
  \<^verbatim>\<open>change_frame\<close> (the function defined above is \<^verbatim>\<open>_change_frame\<close>). The three
  helpers are the functions of this notebook; each call hands over the positional
  arguments as written.
\<close>

definition read_partition :: "env \<Rightarrow> lib \<Rightarrow> expr \<Rightarrow> expr" where
  "read_partition E B ddi L =
     then_do (load_global E ''cngi'') (\<lambda>cngi.
     then_do (load ''xds'' L) (\<lambda>xds.
     then_do (ddi L) (\<lambda>d.
     read_vis B cngi xds d)))"

definition broadcast_change_frame :: "env \<Rightarrow> lib \<Rightarrow> expr" where
  "broadcast_change_frame E B L =
     then_do (load_global E ''change_frame'') (\<lambda>fn.
     then_do (load ''place'' L) (\<lambda>place.
     then_do (load ''source'' L) (\<lambda>source.
     then_do (load ''vis_xds'' L) (\<lambda>vis.
     then_do (getattr vis ''DATA'') (\<lambda>data.
     then_do (chunk_chan B data) (\<lambda>chunked.
     then_do (load ''vis_xds'' L) (\<lambda>vis'.
     then_do (getattr vis' ''DATA'') (\<lambda>data'.
     then_do (dtype B data') (\<lambda>dt.
     apply_ufunc B fn place source chunked dt)))))))))"

definition topo_to_lsrk ::
  "env \<Rightarrow> lib \<Rightarrow> pyval \<Rightarrow> pyval \<Rightarrow> pyval \<Rightarrow> pyval \<Rightarrow> pyval \<Rightarrow> pyval res" where
  "topo_to_lsrk E B xds ddi reference_time observer_location target_location =
     run_def [(''xds'', xds), (''ddi'', ddi), (''reference_time'', reference_time),
              (''observer_location'', observer_location),
              (''target_location'', target_location)]
       (seq (import_module E ''xarray'')
       (seq (import_from E ''cngi.dio'' [''read_vis''])
       (seq (assign ''vis_xds'' (read_partition E B (load ''ddi'')))
       (seq (assign ''global_xds'' (read_partition E B (\<lambda>L. Inr (PStr ''global''))))
       (seq (assign ''time'' (\<lambda>L.
               then_do (load ''global_xds'' L) (\<lambda>g.
               call1 (helper_reference_time E) [g])))
       (seq (assign ''place'' (\<lambda>L.
               then_do (load ''global_xds'' L) (\<lambda>g.
               then_do (load ''reference_time'' L) (\<lambda>t.
               call2 (helper_reference_location E B) [g, t]))))
       (seq (assign ''source'' (\<lambda>L.
               then_do (load ''global_xds'' L) (\<lambda>g.
               then_do (load ''ddi'' L) (\<lambda>d.
               call1 (helper_target_location E B) [g, d]))))
            (assign ''output_xds'' (broadcast_change_frame E B)))))))))
       (load ''output_xds'')"

subsection \<open>Applying a function chunk by chunk\<close>

text \<open>
  What \<^verbatim>\<open>xarray.apply_ufunc(..., input_core_dims=[['chan']], dask='parallelized')\<close>
  is asked to do with the function it is given: call it on every chunk, each chunk a
  block of rows that keeps the whole channel axis, and put the rows of the results
  together in order. The first exception ends the computation.
\<close>

fun rows_of :: "pyval \<Rightarrow> pyval list res" where
  "rows_of (PSeq rows) = Inr rows"
| "rows_of v = Inl TypeError"

fun map_over_chunks :: "(pyval \<Rightarrow> pyval res) \<Rightarrow> pyval list \<Rightarrow> pyval list res" where
  "map_over_chunks f [] = Inr []"
| "map_over_chunks f (c # cs) =
     then_do (f c) (\<lambda>out.
     then_do (rows_of out) (\<lambda>rows.
     then_do (map_over_chunks f cs) (\<lambda>rest.
     Inr (rows @ rest))))"

subsection \<open>Sample surroundings and inputs\<close>

text \<open>A library in which every operation succeeds and returns an object that records
  the operation and its arguments.\<close>

definition echo_lib :: lib where
  "echo_lib =
     \<lparr> of_site = (\<lambda>name. Inr (PObj ''EarthLocation.of_site'' [name])),
       EarthLocation = (\<lambda>pos. Inr (PObj ''EarthLocation'' [pos])),
       Time = (\<lambda>t. Inr (PObj ''Time'' [t])),
       get_itrs = (\<lambda>loc obstime. Inr (PObj ''get_itrs'' [loc, obstime])),
       mean = (\<lambda>a. Inr (PObj ''mean'' [a])),
       times_unit = (\<lambda>v unit. Inr (PObj ''Quantity'' [v, PStr unit])),
       Angle = (\<lambda>a b. Inr (PObj ''Angle'' [a, b])),
       SkyCoord = (\<lambda>radec frame vel dist. Inr (PObj ''SkyCoord'' [radec, frame, vel, dist])),
       SpectralCoord = (\<lambda>a unit obs tgt. Inr (PObj ''SpectralCoord'' [a, unit, obs, tgt])),
       with_observer_stationary_relative_to =
         (\<lambda>a frame. Inr (PObj ''with_observer_stationary_relative_to'' [a, PStr frame])),
       call_reduce = (\<lambda>a. Inr (PObj ''call'' [a])),
       read_vis = (\<lambda>cngi xds ddi. Inr (PObj ''read_vis'' [xds, ddi])),
       chunk_chan = (\<lambda>a. Inr (PObj ''chunk'' [a])),
       dtype = (\<lambda>a. Inr (PObj ''dtype'' [a])),
       apply_ufunc = (\<lambda>fn place source a dt.
          Inr (PObj ''apply_ufunc'' [fn, place, source, a, dt])) \<rparr>"

text \<open>A global partition that carries every field the helpers look for.\<close>

definition full_xds :: pyval where
  "full_xds =
     PDataset
       [(''ASDM_startValidTime'', PSeq [PStr ''2019-04-24T02:32:10'']),
        (''OBS_TIME_RANGE'', PSeq [PStr ''2019-04-24T02:32:11'', PStr ''2019-04-24T03:32:10'']),
        (''OBS_TELESCOPE_NAME'', PStr ''ALMA''),
        (''ANT_POSITION'', PSeq [PSeq [PNum (-1601185), PNum (-5041977), PNum 3554875]]),
        (''SRC_DIRECTION'', PSeq [PNum 1, PNum 0]),
        (''SRC_PROPER_MOTION'', PSeq [PNum 0, PNum 0]),
        (''DATA'', PSeq [PSeq [PNum 1, PNum 2], PSeq [PNum 3, PNum 4]])]
       [(''rest_frequency'', PStr ''1.42 GHz'')]"

text \<open>The library above, reading \<open>full_xds\<close> for every partition.\<close>

definition full_lib :: lib where
  "full_lib = echo_lib \<lparr> read_vis := (\<lambda>cngi xds ddi. Inr full_xds) \<rparr>"

text \<open>The module as the notebook leaves it: none of \<^verbatim>\<open>global_xds\<close>, \<^verbatim>\<open>something\<close>,
  \<^verbatim>\<open>img_xds\<close>, \<^verbatim>\<open>cngi\<close>, \<^verbatim>\<open>change_frame\<close> is bound at module level.\<close>

definition bare_env :: env where
  "bare_env =
     \<lparr> now = PStr ''2026-01-01T00:00:00'',
       globals = (\<lambda>name. None),
       importable = (\<lambda>m n. True) \<rparr>"

text \<open>A module in which a user has bound all of them.\<close>

definition full_env :: env where
  "full_env =
     \<lparr> now = PStr ''2026-01-01T00:00:00'',
       globals = map_of
         [(''global_xds'', full_xds),
          (''img_xds'', full_xds),
          (''something'', PQuantity ''140.0'' ''pc''),
          (''cngi'', PObj ''module'' [PStr ''cngi'']),
          (''change_frame'', PObj ''function'' [PStr ''change_frame''])],
       importable = (\<lambda>m n. True) \<rparr>"

section \<open>Properties\<close>

subsection \<open>Closed forms of the helpers\<close>

lemmas stmt_defs = run_def_def try_except_def seq_def assign_def expr_stmt_def load_def
  import_from_def import_module_def

lemmas target_defs = helper_target_location_def target_radec_def target_frame_stmt_def
  target_recession_def target_distance_def sky_coord_def load_global_def

lemmas sample_defs = bare_env_def full_env_def echo_lib_def full_lib_def full_xds_def

lemma helper_reference_time_eq:
  "helper_reference_time E x =
     (case then_do (getitem x ''ASDM_startValidTime'') index0 of
        Inl e \<Rightarrow> Inr (now E)
      | Inr a \<Rightarrow>
          (case then_do (getattr x ''OBS_TIME_RANGE'') (\<lambda>r. then_do (values_attr r) index0) of
             Inl e \<Rightarrow> Inr (now E)
           | Inr t \<Rightarrow> Inr t))"
  by (simp add: helper_reference_time_def stmt_defs asdm_start_def obs_time_range_first_def
      then_do_def split: sum.splits)

lemma helper_reference_time_returns: "\<exists>v. helper_reference_time E x = Inr v"
  by (simp add: helper_reference_time_eq split: sum.splits)

lemma helper_reference_location_eq:
  assumes "importable E ''astropy.coordinates'' ''EarthLocation''"
    and "importable E ''astropy.time'' ''Time''"
  shows "helper_reference_location E B x t =
     (case site_location B (map_of [(''input_xds'', x), (''reference_time'', t)]) of
        Inr v \<Rightarrow> Inr v
      | Inl e \<Rightarrow> antenna_location B (map_of [(''input_xds'', x), (''reference_time'', t)]))"
  using assms
  by (simp add: helper_reference_location_def stmt_defs split: sum.splits)

lemma target_frame_stmt_eq:
  "target_frame_stmt L = Normal (L(''target_frame'' \<mapsto> PStr ''icrs''))"
  by (simp add: target_frame_stmt_def try_except_def assign_def)

lemma helper_target_location_direction_ok:
  assumes "importable E ''astropy.coordinates'' ''Angle''"
    and "importable E ''astropy.coordinates'' ''SkyCoord''"
    and "importable E ''astropy'' ''units''"
    and "direction_angle B (map_of [(''input_xds'', x)]) = Inr a"
  shows "helper_target_location E B x = Inl UnboundLocalError"
  using assms
  by (simp add: target_defs stmt_defs then_do_def split: sum.splits)

lemma helper_target_location_direction_fails:
  assumes "importable E ''astropy.coordinates'' ''Angle''"
    and "importable E ''astropy.coordinates'' ''SkyCoord''"
    and "importable E ''astropy'' ''units''"
    and "direction_angle B (map_of [(''input_xds'', x)]) = Inl e"
  shows "helper_target_location E B x =
     SkyCoord B default_radec (PStr ''icrs'')
       (case proper_motion_hz E B (map_of [(''input_xds'', x)]) of
          Inl e' \<Rightarrow> default_recession | Inr v \<Rightarrow> v)
       (case globals E ''something'' of None \<Rightarrow> default_distance | Some d \<Rightarrow> d)"
  using assms
  by (simp add: target_defs stmt_defs then_do_def proper_motion_hz_def
      split: sum.splits option.splits)

lemma helper_target_location_frame:
  assumes "helper_target_location E B x = Inr v"
  shows "\<exists>c d. SkyCoord B default_radec (PStr ''icrs'') c d = Inr v"
  using assms
  by (auto simp add: target_defs stmt_defs then_do_def
      split: sum.splits option.splits if_splits outcome.splits)

lemma rest_frequency_unit_raises: "\<exists>e. rest_frequency_unit E = Inl e"
  by (auto simp: rest_frequency_unit_def then_do_def call_module_def split: sum.splits)

lemma rest_frequency_unit_cong:
  "globals E ''img_xds'' = globals E' ''img_xds'' \<Longrightarrow>
   rest_frequency_unit E = rest_frequency_unit E'"
  by (simp add: rest_frequency_unit_def load_global_def)

lemma helper_change_frame_raises: "\<exists>e. helper_change_frame E B a p s = Inl e"
  using rest_frequency_unit_raises[of E]
  by (auto simp: helper_change_frame_def stmt_defs spectral_coord_def then_do_def
      split: sum.splits)

lemma topo_to_lsrk_raises: "\<exists>e. topo_to_lsrk E B xds ddi rt ol tloc = Inl e"
  by (auto simp: topo_to_lsrk_def stmt_defs then_do_def split: sum.splits outcome.splits)

subsection \<open>The metadata resolvers\<close>

text \<open>
  C1, as the code has it. \<^verbatim>\<open>_reference_time\<close> returns a value for every input and
  never raises. In \<^verbatim>\<open>_reference_location\<close>, once the imports have succeeded, any
  failure of the site lookup is replaced by the antenna-position computation, and what
  that computation raises is what the caller gets. In \<^verbatim>\<open>_target_location\<close>, once
  the imports have succeeded and the direction read has failed, the direction, the
  proper motion and the distance fall back to their defaults one by one, and the result
  is whatever the final \<^verbatim>\<open>SkyCoord\<close> call returns or raises on these values.
\<close>

theorem resolvers_failure_paths:
  "(\<exists>v. helper_reference_time E x = Inr v)
   \<and> (importable E ''astropy.coordinates'' ''EarthLocation''
        \<and> importable E ''astropy.time'' ''Time'' \<longrightarrow>
      helper_reference_location E B x t =
        (case site_location B (map_of [(''input_xds'', x), (''reference_time'', t)]) of
           Inr v \<Rightarrow> Inr v
         | Inl e \<Rightarrow>
             antenna_location B (map_of [(''input_xds'', x), (''reference_time'', t)])))
   \<and> (importable E ''astropy.coordinates'' ''Angle''
        \<and> importable E ''astropy.coordinates'' ''SkyCoord''
        \<and> importable E ''astropy'' ''units''
        \<and> (\<exists>e. direction_angle B (map_of [(''input_xds'', x)]) = Inl e) \<longrightarrow>
      helper_target_location E B x =
        SkyCoord B default_radec (PStr ''icrs'')
          (case proper_motion_hz E B (map_of [(''input_xds'', x)]) of
             Inl e' \<Rightarrow> default_recession | Inr v \<Rightarrow> v)
          (case globals E ''something'' of None \<Rightarrow> default_distance | Some d \<Rightarrow> d))"
proof (intro conjI impI)
  show "\<exists>v. helper_reference_time E x = Inr v"
    by (rule helper_reference_time_returns)
next
  assume "importable E ''astropy.coordinates'' ''EarthLocation''
        \<and> importable E ''astropy.time'' ''Time''"
  then show "helper_reference_location E B x t =
        (case site_location B (map_of [(''input_xds'', x), (''reference_time'', t)]) of
           Inr v \<Rightarrow> Inr v
         | Inl e \<Rightarrow>
             antenna_location B (map_of [(''input_xds'', x), (''reference_time'', t)]))"
    by (simp add: helper_reference_location_eq)
next
  assume h: "importable E ''astropy.coordinates'' ''Angle''
        \<and> importable E ''astropy.coordinates'' ''SkyCoord''
        \<and> importable E ''astropy'' ''units''
        \<and> (\<exists>e. direction_angle B (map_of [(''input_xds'', x)]) = Inl e)"
  then obtain e where "direction_angle B (map_of [(''input_xds'', x)]) = Inl e"
    by blast
  with h show "helper_target_location E B x =
        SkyCoord B default_radec (PStr ''icrs'')
          (case proper_motion_hz E B (map_of [(''input_xds'', x)]) of
             Inl e' \<Rightarrow> default_recession | Inr v \<Rightarrow> v)
          (case globals E ''something'' of None \<Rightarrow> default_distance | Some d \<Rightarrow> d)"
    by (simp add: helper_target_location_direction_fails)
qed

theorem resolvers_failure_paths_witness:
  "importable bare_env ''astropy.coordinates'' ''EarthLocation''
   \<and> importable bare_env ''astropy.time'' ''Time''
   \<and> importable bare_env ''astropy.coordinates'' ''Angle''
   \<and> importable bare_env ''astropy.coordinates'' ''SkyCoord''
   \<and> importable bare_env ''astropy'' ''units''
   \<and> direction_angle echo_lib
        (map_of [(''input_xds'', PDataset [(''ANT_POSITION'', PSeq [PNum 1, PNum 2, PNum 3])] [])])
       = Inl AttributeError
   \<and> helper_reference_location bare_env echo_lib
        (PDataset [(''ANT_POSITION'', PSeq [PNum 1, PNum 2, PNum 3])] [])
        (PStr ''2019-04-24T02:32:10'')
       = Inr (PObj ''get_itrs''
               [PObj ''EarthLocation''
                  [PObj ''mean'' [PDataArray (PSeq [PNum 1, PNum 2, PNum 3])]],
                PObj ''Time'' [PStr ''2019-04-24T02:32:10'']])
   \<and> helper_target_location bare_env echo_lib
        (PDataset [(''ANT_POSITION'', PSeq [PNum 1, PNum 2, PNum 3])] [])
       = Inr (PObj ''SkyCoord''
               [default_radec, PStr ''icrs'', default_recession, default_distance])"
  using resolvers_failure_paths [of bare_env
      "PDataset [(''ANT_POSITION'', PSeq [PNum 1, PNum 2, PNum 3])] []" echo_lib
      "PStr ''2019-04-24T02:32:10''"]
  by (simp add: sample_defs direction_angle_def src_direction_rad_def proper_motion_hz_def
      site_location_def antenna_location_def load_def load_global_def then_do_def)

theorem reference_location_raises_counterexample:
  "helper_reference_location bare_env echo_lib (PDataset [] []) (PStr ''2019-04-24T02:32:10'')
     = Inl KeyError"
  by (simp add: helper_reference_location_def stmt_defs sample_defs site_location_def
      antenna_location_def then_do_def)

text \<open>
  C2. On a partition that carries every field, read through a library in which every
  operation succeeds and from a module that binds \<^verbatim>\<open>global_xds\<close> and
  \<^verbatim>\<open>something\<close>, \<^verbatim>\<open>_reference_time\<close> returns the first element of
  \<^verbatim>\<open>OBS_TIME_RANGE\<close> and \<^verbatim>\<open>_reference_location\<close> the location of the named site,
  but \<^verbatim>\<open>_target_location\<close> returns nothing: the direction it has read is bound to
  \<^verbatim>\<open>radec_string\<close>, and the unbound \<^verbatim>\<open>radec\<close> is what it passes on.
\<close>

theorem complete_metadata_target_location_raises:
  "helper_reference_time full_env full_xds = Inr (PStr ''2019-04-24T02:32:11'')
   \<and> helper_reference_location full_env echo_lib full_xds (PStr ''2019-04-24T02:32:11'')
       = Inr (PObj ''get_itrs''
               [PObj ''EarthLocation.of_site'' [PDataArray (PStr ''ALMA'')],
                PObj ''Time'' [PStr ''2019-04-24T02:32:11'']])
   \<and> helper_target_location full_env echo_lib full_xds = Inl UnboundLocalError"
proof (intro conjI)
  show "helper_reference_time full_env full_xds = Inr (PStr ''2019-04-24T02:32:11'')"
    by (simp add: helper_reference_time_eq sample_defs then_do_def)
  show "helper_reference_location full_env echo_lib full_xds (PStr ''2019-04-24T02:32:11'')
       = Inr (PObj ''get_itrs''
               [PObj ''EarthLocation.of_site'' [PDataArray (PStr ''ALMA'')],
                PObj ''Time'' [PStr ''2019-04-24T02:32:11'']])"
    by (simp add: helper_reference_location_def stmt_defs sample_defs site_location_def
        then_do_def)
  show "helper_target_location full_env echo_lib full_xds = Inl UnboundLocalError"
    by (simp add: target_defs stmt_defs sample_defs direction_angle_def src_direction_rad_def
        proper_motion_hz_def then_do_def)
qed

text \<open>
  C6. On a partition without the variable \<^verbatim>\<open>ASDM_startValidTime\<close>, or with
  \<^verbatim>\<open>OBS_TIME_RANGE\<close> neither among its variables nor among its attributes,
  \<^verbatim>\<open>_reference_time\<close> returns the wall-clock time and raises nothing.
\<close>

theorem reference_time_missing_field:
  assumes "map_of vars ''ASDM_startValidTime'' = None
         \<or> (map_of vars ''OBS_TIME_RANGE'' = None \<and> map_of ats ''OBS_TIME_RANGE'' = None)"
  shows "helper_reference_time E (PDataset vars ats) = Inr (now E)"
  using assms by (auto simp: helper_reference_time_eq then_do_def split: sum.splits)

theorem reference_time_missing_field_witness:
  "(map_of [(''ANT_POSITION'', PSeq [])] ''ASDM_startValidTime'' = None
     \<or> (map_of [(''ANT_POSITION'', PSeq [])] ''OBS_TIME_RANGE'' = None
          \<and> map_of ([] :: (string \<times> pyval) list) ''OBS_TIME_RANGE'' = None))
   \<and> helper_reference_time bare_env (PDataset [(''ANT_POSITION'', PSeq [])] [])
       = Inr (PStr ''2026-01-01T00:00:00'')"
  using reference_time_missing_field [of "[(''ANT_POSITION'', PSeq [])]" "[]" bare_env]
  by (simp add: bare_env_def)

text \<open>
  C10. When the read of \<^verbatim>\<open>ASDM_startValidTime\<close> and the read of the first
  element of \<^verbatim>\<open>OBS_TIME_RANGE\<close> both succeed, \<^verbatim>\<open>_reference_time\<close> returns that
  first element of \<^verbatim>\<open>OBS_TIME_RANGE\<close>, whatever the value read from
  \<^verbatim>\<open>ASDM_startValidTime\<close> was; when either read fails it returns the wall-clock
  time. So the result is always one of these two, and whenever \<^verbatim>\<open>OBS_TIME_RANGE\<close>
  cannot be read, with or without \<^verbatim>\<open>ASDM_startValidTime\<close>, it is the wall-clock
  time.
\<close>

theorem reference_time_never_asdm:
  "(\<forall>a t. then_do (getitem x ''ASDM_startValidTime'') index0 = Inr a
          \<and> then_do (getattr x ''OBS_TIME_RANGE'') (\<lambda>r. then_do (values_attr r) index0) = Inr t
          \<longrightarrow> helper_reference_time E x = Inr t)
   \<and> (\<forall>e. then_do (getitem x ''ASDM_startValidTime'') index0 = Inl e
          \<longrightarrow> helper_reference_time E x = Inr (now E))
   \<and> (\<forall>e. then_do (getattr x ''OBS_TIME_RANGE'') (\<lambda>r. then_do (values_attr r) index0) = Inl e
          \<longrightarrow> helper_reference_time E x = Inr (now E))
   \<and> (helper_reference_time E x = Inr (now E)
       \<or> (\<exists>a r t. then_do (getitem x ''ASDM_startValidTime'') index0 = Inr a
             \<and> getattr x ''OBS_TIME_RANGE'' = Inr r
             \<and> then_do (values_attr r) index0 = Inr t
             \<and> helper_reference_time E x = Inr t))
   \<and> (\<forall>e. getattr x ''OBS_TIME_RANGE'' = Inl e \<longrightarrow> helper_reference_time E x = Inr (now E))"
proof (intro conjI allI impI)
  fix a t
  assume "then_do (getitem x ''ASDM_startValidTime'') index0 = Inr a
          \<and> then_do (getattr x ''OBS_TIME_RANGE'') (\<lambda>r. then_do (values_attr r) index0) = Inr t"
  then show "helper_reference_time E x = Inr t"
    by (simp add: helper_reference_time_eq)
next
  fix e
  assume "then_do (getitem x ''ASDM_startValidTime'') index0 = Inl e"
  then show "helper_reference_time E x = Inr (now E)"
    by (simp add: helper_reference_time_eq)
next
  fix e
  assume "then_do (getattr x ''OBS_TIME_RANGE'') (\<lambda>r. then_do (values_attr r) index0) = Inl e"
  then show "helper_reference_time E x = Inr (now E)"
    by (simp add: helper_reference_time_eq split: sum.splits)
next
  show "helper_reference_time E x = Inr (now E)
       \<or> (\<exists>a r t. then_do (getitem x ''ASDM_startValidTime'') index0 = Inr a
             \<and> getattr x ''OBS_TIME_RANGE'' = Inr r
             \<and> then_do (values_attr r) index0 = Inr t
             \<and> helper_reference_time E x = Inr t)"
    by (auto simp: helper_reference_time_eq then_do_def split: sum.splits)
next
  fix e
  assume "getattr x ''OBS_TIME_RANGE'' = Inl e"
  then show "helper_reference_time E x = Inr (now E)"
    by (simp add: helper_reference_time_eq then_do_def split: sum.splits)
qed

theorem reference_time_never_asdm_witness:
  "(then_do (getitem full_xds ''ASDM_startValidTime'') index0
       = Inr (PDataArray (PStr ''2019-04-24T02:32:10''))
    \<and> then_do (getattr full_xds ''OBS_TIME_RANGE'') (\<lambda>r. then_do (values_attr r) index0)
       = Inr (PStr ''2019-04-24T02:32:11'')
    \<and> helper_reference_time bare_env full_xds = Inr (PStr ''2019-04-24T02:32:11''))
   \<and> (then_do (getitem (PDataset [(''OBS_TIME_RANGE'', PSeq [PStr ''2019-04-24T02:32:11''])] [])
          ''ASDM_startValidTime'') index0 = Inl KeyError
      \<and> helper_reference_time bare_env
           (PDataset [(''OBS_TIME_RANGE'', PSeq [PStr ''2019-04-24T02:32:11''])] [])
         = Inr (PStr ''2026-01-01T00:00:00''))
   \<and> (getattr (PDataset [(''ASDM_startValidTime'', PSeq [PStr ''2019-04-24T02:32:10''])] [])
          ''OBS_TIME_RANGE'' = Inl AttributeError
      \<and> then_do (getitem
            (PDataset [(''ASDM_startValidTime'', PSeq [PStr ''2019-04-24T02:32:10''])] [])
            ''ASDM_startValidTime'') index0 = Inr (PDataArray (PStr ''2019-04-24T02:32:10''))
      \<and> helper_reference_time bare_env
           (PDataset [(''ASDM_startValidTime'', PSeq [PStr ''2019-04-24T02:32:10''])] [])
         = Inr (PStr ''2026-01-01T00:00:00''))
   \<and> (then_do (getattr
            (PDataset [(''ASDM_startValidTime'', PSeq [PStr ''2019-04-24T02:32:10'']),
                       (''OBS_TIME_RANGE'', PStr ''2019-04-24T02:32:11'')] [])
            ''OBS_TIME_RANGE'') (\<lambda>r. then_do (values_attr r) index0) = Inl IndexError
      \<and> helper_reference_time bare_env
           (PDataset [(''ASDM_startValidTime'', PSeq [PStr ''2019-04-24T02:32:10'']),
                      (''OBS_TIME_RANGE'', PStr ''2019-04-24T02:32:11'')] [])
         = Inr (PStr ''2026-01-01T00:00:00''))"
  using reference_time_never_asdm [of full_xds bare_env]
    reference_time_never_asdm [of
      "PDataset [(''OBS_TIME_RANGE'', PSeq [PStr ''2019-04-24T02:32:11''])] []" bare_env]
    reference_time_never_asdm [of
      "PDataset [(''ASDM_startValidTime'', PSeq [PStr ''2019-04-24T02:32:10''])] []" bare_env]
    reference_time_never_asdm [of
      "PDataset [(''ASDM_startValidTime'', PSeq [PStr ''2019-04-24T02:32:10'']),
                 (''OBS_TIME_RANGE'', PStr ''2019-04-24T02:32:11'')] []" bare_env]
  by (simp add: then_do_def bare_env_def full_xds_def)

text \<open>
  C9. The \<^verbatim>\<open>try\<close> statement that sets the frame always ends normally with
  \<^verbatim>\<open>target_frame\<close> bound to \<^verbatim>\<open>'icrs'\<close>, so its handler, the only place that
  mentions \<^verbatim>\<open>'FK5'\<close>, never runs; and every value \<^verbatim>\<open>_target_location\<close> returns
  is the result of a \<^verbatim>\<open>SkyCoord\<close> call made with the frame \<^verbatim>\<open>'icrs'\<close>.
\<close>

theorem target_frame_always_icrs:
  "target_frame_stmt L = Normal (L(''target_frame'' \<mapsto> PStr ''icrs''))
   \<and> (helper_target_location E B x = Inr v \<longrightarrow>
        (\<exists>r c d. SkyCoord B r (PStr ''icrs'') c d = Inr v))"
  using helper_target_location_frame [of E B x v]
  by (auto simp: target_frame_stmt_eq)

theorem target_frame_always_icrs_witness:
  "helper_target_location bare_env echo_lib (PDataset [] [])
     = Inr (PObj ''SkyCoord'' [default_radec, PStr ''icrs'', default_recession, default_distance])
   \<and> (\<exists>r c d. SkyCoord echo_lib r (PStr ''icrs'') c d
        = Inr (PObj ''SkyCoord''
                 [default_radec, PStr ''icrs'', default_recession, default_distance]))"
proof -
  have ret: "helper_target_location bare_env echo_lib (PDataset [] [])
     = Inr (PObj ''SkyCoord'' [default_radec, PStr ''icrs'', default_recession, default_distance])"
    by (simp add: target_defs stmt_defs sample_defs direction_angle_def src_direction_rad_def
        proper_motion_hz_def then_do_def)
  from target_frame_always_icrs [of Map.empty bare_env echo_lib "PDataset [] []"
      "PObj ''SkyCoord'' [default_radec, PStr ''icrs'', default_recession, default_distance]"]
    ret
  show ?thesis by blast
qed

subsection \<open>The frame-change operator and the orchestrator\<close>

text \<open>
  C3. \<^verbatim>\<open>topo_to_lsrk\<close> returns no dataset, whatever it is given. With the module
  name \<^verbatim>\<open>cngi\<close> bound, both partitions read and the time and the observer location
  resolved, the call \<^verbatim>\<open>_target_location(global_xds, ddi)\<close> hands two arguments to a
  function of one parameter and raises \<^verbatim>\<open>TypeError\<close>; every other run ends in an
  exception raised before that call.
\<close>

theorem topo_to_lsrk_never_returns:
  "topo_to_lsrk full_env full_lib (PStr ''vis.zarr'') (PNum 0) (PStr ''2019-04-24T02:32:10'')
      PNone PNone = Inl TypeError
   \<and> (\<exists>e. topo_to_lsrk E B xds ddi rt ol tloc = Inl e)"
proof (intro conjI)
  show "topo_to_lsrk full_env full_lib (PStr ''vis.zarr'') (PNum 0)
      (PStr ''2019-04-24T02:32:10'') PNone PNone = Inl TypeError"
    by (simp add: topo_to_lsrk_def stmt_defs then_do_def sample_defs load_global_def
        read_partition_def helper_reference_time_eq helper_reference_location_def
        site_location_def)
  show "\<exists>e. topo_to_lsrk E B xds ddi rt ol tloc = Inl e"
    by (rule topo_to_lsrk_raises)
qed

text \<open>
  C4. \<^verbatim>\<open>_change_frame\<close> returns no array, whatever it is given: the unit argument
  of \<^verbatim>\<open>SpectralCoord\<close> raises before the call is made (\<^verbatim>\<open>img_xds\<close> unbound, no
  \<^verbatim>\<open>rest_frequency\<close>, \<^verbatim>\<open>split('')\<close> with its empty separator, or the call of the
  module \<^verbatim>\<open>u\<close>). With \<^verbatim>\<open>img_xds\<close> bound to a dataset whose rest frequency is a
  string, the exception is \<^verbatim>\<open>ValueError\<close>.
\<close>

theorem change_frame_never_returns:
  "helper_change_frame full_env echo_lib (PSeq [PSeq [PNum 1, PNum 2], PSeq [PNum 3, PNum 4]])
      (PObj ''ITRS'' []) (PObj ''SkyCoord'' []) = Inl ValueError
   \<and> (\<exists>e. helper_change_frame E B a p s = Inl e)"
proof (intro conjI)
  show "helper_change_frame full_env echo_lib
      (PSeq [PSeq [PNum 1, PNum 2], PSeq [PNum 3, PNum 4]])
      (PObj ''ITRS'' []) (PObj ''SkyCoord'' []) = Inl ValueError"
    by (simp add: helper_change_frame_def stmt_defs spectral_coord_def rest_frequency_unit_def
        load_global_def then_do_def sample_defs)
  show "\<exists>e. helper_change_frame E B a p s = Inl e"
    by (rule helper_change_frame_raises)
qed

text \<open>
  C5. Applied chunk by chunk, \<^verbatim>\<open>_change_frame\<close> yields no array either: on two
  chunks of one row each the first call raises \<^verbatim>\<open>ValueError\<close>, and on any
  partition with at least one chunk the computation ends in an exception.
\<close>

theorem chunked_change_frame_never_returns:
  "map_over_chunks
      (\<lambda>c. helper_change_frame full_env echo_lib c (PObj ''ITRS'' []) (PObj ''SkyCoord'' []))
      [PSeq [PSeq [PNum 1, PNum 2]], PSeq [PSeq [PNum 3, PNum 4]]] = Inl ValueError
   \<and> (\<exists>e. map_over_chunks (\<lambda>c. helper_change_frame E B c p s) (c0 # cs) = Inl e)"
proof (intro conjI)
  show "map_over_chunks
      (\<lambda>c. helper_change_frame full_env echo_lib c (PObj ''ITRS'' []) (PObj ''SkyCoord'' []))
      [PSeq [PSeq [PNum 1, PNum 2]], PSeq [PSeq [PNum 3, PNum 4]]] = Inl ValueError"
    by (simp add: helper_change_frame_def stmt_defs spectral_coord_def rest_frequency_unit_def
        load_global_def then_do_def sample_defs)
  obtain e where "helper_change_frame E B c0 p s = Inl e"
    using helper_change_frame_raises by blast
  then show "\<exists>e. map_over_chunks (\<lambda>c. helper_change_frame E B c p s) (c0 # cs) = Inl e"
    by (simp add: then_do_def)
qed

text \<open>
  C8, as the code has it. \<^verbatim>\<open>_change_frame\<close> takes the input values, the observer
  and the target, and no frame (\<^verbatim>\<open>'lsrk'\<close> is fixed in its body). Beyond its
  arguments it reads the module name \<^verbatim>\<open>img_xds\<close>: two calls with equal arguments,
  in surroundings that agree on \<^verbatim>\<open>img_xds\<close> and on what can be imported, end the
  same way, whatever else the module binds.
\<close>

theorem change_frame_reads_img_xds:
  assumes "importable E = importable E'"
    and "globals E ''img_xds'' = globals E' ''img_xds''"
  shows "helper_change_frame E B a p s = helper_change_frame E' B a p s"
  using rest_frequency_unit_raises [of E'] rest_frequency_unit_cong [OF assms(2)] assms(1)
  by (auto simp: helper_change_frame_def stmt_defs spectral_coord_def then_do_def
      split: sum.splits)

theorem change_frame_reads_img_xds_witness:
  "importable bare_env = importable (bare_env \<lparr> globals := map_of [(''something'', PNone)] \<rparr>)
   \<and> globals bare_env ''img_xds''
       = globals (bare_env \<lparr> globals := map_of [(''something'', PNone)] \<rparr>) ''img_xds''
   \<and> helper_change_frame bare_env echo_lib (PSeq [PNum 1]) PNone PNone
       = helper_change_frame (bare_env \<lparr> globals := map_of [(''something'', PNone)] \<rparr>)
           echo_lib (PSeq [PNum 1]) PNone PNone
   \<and> helper_change_frame bare_env echo_lib (PSeq [PNum 1]) PNone PNone = Inl NameError"
proof -
  have a: "importable bare_env
      = importable (bare_env \<lparr> globals := map_of [(''something'', PNone)] \<rparr>)"
    by simp
  have b: "globals bare_env ''img_xds''
      = globals (bare_env \<lparr> globals := map_of [(''something'', PNone)] \<rparr>) ''img_xds''"
    by (simp add: bare_env_def)
  have c: "helper_change_frame bare_env echo_lib (PSeq [PNum 1]) PNone PNone = Inl NameError"
    by (simp add: helper_change_frame_def stmt_defs spectral_coord_def rest_frequency_unit_def
        load_global_def then_do_def sample_defs)
  from change_frame_reads_img_xds [OF a b, of echo_lib "PSeq [PNum 1]" PNone PNone] a b c
  show ?thesis by simp
qed

theorem change_frame_depends_on_module_counterexample:
  "helper_change_frame bare_env echo_lib (PSeq [PNum 1]) (PObj ''ITRS'' []) (PObj ''SkyCoord'' [])
     \<noteq> helper_change_frame full_env echo_lib (PSeq [PNum 1]) (PObj ''ITRS'' [])
          (PObj ''SkyCoord'' [])"
  by (simp add: helper_change_frame_def stmt_defs spectral_coord_def then_do_def
      rest_frequency_unit_def load_global_def sample_defs)

end
